theory Spec2Isabelle
  imports Main "HOL-Library.Word" "HOL-Library.Char_ord" "HOL-Library.List_Lexorder"
begin

section \<open>Python values handled by app.py\<close>

text \<open>
  The values that travel through the handlers of \<^verbatim>\<open>app.py\<close> are what \<^verbatim>\<open>json.loads\<close> and
  \<^verbatim>\<open>request.json\<close> produce: \<^verbatim>\<open>None\<close>, booleans, integers, floats, strings, lists and dicts
  with string keys. A dict is an association list in insertion order. A Python \<^verbatim>\<open>str\<close> is
  modelled as a \<^typ>\<open>string\<close> read as a list of code points below 256; text with other code
  points is outside the model. A float is its IEEE 754 binary64 bit pattern, as CPython
  stores it; what the interpreter computes on floats (their addition, the conversion of an
  integer) is a parameter of the model, so nothing is assumed about rounding, overflow to
  infinity or NaN.
\<close>

datatype json =
    JNull
  | JBool bool
  | JInt int
  | JFloat "64 word"
  | JStr string
  | JArr "json list"
  | JObj "(string \<times> json) list"

type_synonym dict = "(string \<times> json) list"

datatype exn = TypeError string | AttributeError string | OverflowError string

fun str_exn :: "exn \<Rightarrow> string" where
  "str_exn (TypeError m) = m"
| "str_exn (AttributeError m) = m"
| "str_exn (OverflowError m) = m"

fun py_type_name :: "json \<Rightarrow> string" where
  "py_type_name JNull = ''NoneType''"
| "py_type_name (JBool _) = ''bool''"
| "py_type_name (JInt _) = ''int''"
| "py_type_name (JFloat _) = ''float''"
| "py_type_name (JStr _) = ''str''"
| "py_type_name (JArr _) = ''list''"
| "py_type_name (JObj _) = ''dict''"

definition quoted :: "string \<Rightarrow> string" where
  "quoted s = CHR 0x27 # s @ [CHR 0x27]"

text \<open>\<^verbatim>\<open>d.get(k, default)\<close> and \<^verbatim>\<open>d[k] = v\<close> on an insertion-ordered dict.\<close>

definition dict_get :: "('k \<times> 'v) list \<Rightarrow> 'k \<Rightarrow> 'v \<Rightarrow> 'v" where
  "dict_get d k dflt = (case map_of d k of None \<Rightarrow> dflt | Some v \<Rightarrow> v)"

fun dict_set :: "'k \<Rightarrow> 'v \<Rightarrow> ('k \<times> 'v) list \<Rightarrow> ('k \<times> 'v) list" where
  "dict_set k v [] = [(k, v)]"
| "dict_set k v (p # d) = (if fst p = k then (k, v) # d else p # dict_set k v d)"

text \<open>Truthiness, as tested by \<^verbatim>\<open>if not image_path\<close>. A float is false when it is zero
  of either sign.\<close>

fun py_truthy :: "json \<Rightarrow> bool" where
  "py_truthy JNull = False"
| "py_truthy (JBool b) = b"
| "py_truthy (JInt i) = (i \<noteq> 0)"
| "py_truthy (JFloat x) = (x \<noteq> 0 \<and> x \<noteq> 0x8000000000000000)"
| "py_truthy (JStr s) = (s \<noteq> [])"
| "py_truthy (JArr xs) = (xs \<noteq> [])"
| "py_truthy (JObj d) = (d \<noteq> [])"

section \<open>String helpers\<close>

text \<open>
  \<^verbatim>\<open>str.strip()\<close> removes the characters for which \<^verbatim>\<open>str.isspace\<close> holds; below code point
  256 these are 9 to 13, 28 to 32, 133 and 160.
\<close>

definition is_space :: "char \<Rightarrow> bool" where
  "is_space c =
     (let n = (of_char c :: nat)
      in (9 \<le> n \<and> n \<le> 13) \<or> (28 \<le> n \<and> n \<le> 32) \<or> n = 133 \<or> n = 160)"

definition strip :: "string \<Rightarrow> string" where
  "strip s = rev (dropWhile is_space (rev (dropWhile is_space s)))"

definition startswith :: "string \<Rightarrow> string \<Rightarrow> bool" where
  "startswith s p = (take (length p) s = p)"

definition endswith :: "string \<Rightarrow> string \<Rightarrow> bool" where
  "endswith s p = (length p \<le> length s \<and> drop (length s - length p) s = p)"

text \<open>
  Lines 90 to 96 of \<^verbatim>\<open>analyze_food\<close> and 156 to 162 of \<^verbatim>\<open>reanalyze_food\<close>, up to the
  argument handed to \<^verbatim>\<open>json.loads\<close>:
  \<^verbatim>\<open>
  response_text = response.text.strip()
  if response_text.startswith('```json'): response_text = response_text[7:]
  if response_text.endswith('```'): response_text = response_text[:-3]
  ... json.loads(response_text.strip())
  \<close>
\<close>

definition extract_text :: "string \<Rightarrow> string" where
  "extract_text raw =
     (let t1 = strip raw;
          t2 = (if startswith t1 ''```json'' then drop 7 t1 else t1);
          t3 = (if endswith t2 ''```'' then take (length t2 - 3) t2 else t2)
      in strip t3)"

text \<open>
  \<^verbatim>\<open>str.lower()\<close> below code point 256: A to Z and the accented capitals 192 to 222 (but
  215, the multiplication sign) move up by 32.
\<close>

definition lower_char :: "char \<Rightarrow> char" where
  "lower_char c =
     (let n = (of_char c :: nat)
      in if (65 \<le> n \<and> n \<le> 90) \<or> (192 \<le> n \<and> n \<le> 222 \<and> n \<noteq> 215)
         then char_of (n + 32) else c)"

definition ALLOWED_EXTENSIONS :: "string list" where
  "ALLOWED_EXTENSIONS = [''png'', ''jpg'', ''jpeg'', ''webp'']"

text \<open>\<^verbatim>\<open>s.rsplit(sep, 1)[1]\<close> when \<^verbatim>\<open>sep\<close> occurs in \<^verbatim>\<open>s\<close>: the text after its last occurrence.\<close>

definition after_last :: "char \<Rightarrow> string \<Rightarrow> string" where
  "after_last sep s = rev (takeWhile (\<lambda>c. c \<noteq> sep) (rev s))"

definition allowed_file :: "string \<Rightarrow> bool" where
  "allowed_file filename =
     (CHR ''.'' \<in> set filename \<and>
      map lower_char (after_last (CHR ''.'') filename) \<in> set ALLOWED_EXTENSIONS)"

text \<open>\<^verbatim>\<open>os.path.basename\<close> on a POSIX path: the text after the last slash.\<close>

definition basename :: "string \<Rightarrow> string" where
  "basename p = after_last (CHR ''/'') p"

section \<open>Responses and collaborators\<close>

text \<open>
  A handler returns a JSON body with a status code, or lets an exception escape to Flask.
  \<open>OutOfModel\<close> marks the one situation the model does not follow: a \<^verbatim>\<open>date\<close> entry of a
  \<^verbatim>\<open>/save_meal\<close> body that is present and is a number, a boolean or null, which Python
  would use as a dictionary key of its own type.
\<close>

datatype outcome = Response json nat | Uncaught exn | OutOfModel

definition error_body :: "string \<Rightarrow> json" where
  "error_body msg = JObj [(''error'', JStr msg)]"

text \<open>
  What the handlers call outside this repository: \<^verbatim>\<open>json.loads\<close> (the message of the
  exception it raises, or the parsed value), \<^verbatim>\<open>url_for('uploaded_file', filename=..,
  _external=True)\<close>, werkzeug's \<^verbatim>\<open>secure_filename\<close> and \<^verbatim>\<open>os.path.exists\<close>; and the
  interpreter's float arithmetic: the sum of two floats and \<^verbatim>\<open>float(i)\<close> for an integer,
  which is \<open>None\<close> where Python raises \<^verbatim>\<open>OverflowError\<close>.
\<close>

record env =
  json_loads :: "string \<Rightarrow> string + json"
  url_for :: "string \<Rightarrow> string"
  secure_filename :: "string \<Rightarrow> string"
  path_exists :: "string \<Rightarrow> bool"
  float_add :: "64 word \<Rightarrow> 64 word \<Rightarrow> 64 word"
  float_of_int :: "int \<Rightarrow> 64 word option"

section \<open>The analysis handlers\<close>

text \<open>
  Lines 97 to 99 (and 163 to 165): the three assignments
  \<^verbatim>\<open>result['image_path'] = ..; result['meal_type'] = ..; result['timestamp'] = ..\<close>
  on the value \<^verbatim>\<open>json.loads\<close> returned. The spec calls this step normalize. Item
  assignment with a string key raises \<^verbatim>\<open>TypeError\<close> on anything but a dict.
\<close>

fun normalize :: "json \<Rightarrow> string \<Rightarrow> json \<Rightarrow> string \<Rightarrow> exn + json" where
  "normalize (JObj d) image_url meal_type ts =
     Inr (JObj (dict_set ''timestamp'' (JStr ts)
               (dict_set ''meal_type'' meal_type
               (dict_set ''image_path'' (JStr image_url) d))))"
| "normalize (JArr xs) image_url meal_type ts =
     Inl (TypeError ''list indices must be integers or slices, not str'')"
| "normalize v image_url meal_type ts =
     Inl (TypeError (quoted (py_type_name v) @ '' object does not support item assignment''))"

text \<open>
  The body of the \<^verbatim>\<open>try\<close> block after the model has been called: \<open>reply\<close> is the text of
  the model's response, or the message of the exception raised by \<^verbatim>\<open>Image.open\<close>,
  \<^verbatim>\<open>generate_content\<close> or \<^verbatim>\<open>response.text\<close>. Every exception is caught and reported with
  status 500 under the given prefix.
\<close>

definition analysis :: "env \<Rightarrow> string \<Rightarrow> string + string \<Rightarrow> string \<Rightarrow> json \<Rightarrow> string \<Rightarrow> outcome" where
  "analysis e prefix reply filename meal_type ts =
     (case reply of
        Inl msg \<Rightarrow> Response (error_body (prefix @ msg)) 500
      | Inr text \<Rightarrow>
          (case json_loads e (extract_text text) of
             Inl msg \<Rightarrow> Response (error_body (prefix @ msg)) 500
           | Inr result \<Rightarrow>
               (case normalize result (url_for e filename) meal_type ts of
                  Inl ex \<Rightarrow> Response (error_body (prefix @ str_exn ex)) 500
                | Inr r \<Rightarrow> Response r 200)))"

text \<open>
  The inputs of one \<^verbatim>\<open>POST /analyze\<close>: the filename of the uploaded \<^verbatim>\<open>image\<close> part (if
  any), the \<^verbatim>\<open>meal_type\<close> form field (if any), the two clock readings and the model's reply.
\<close>

record analyze_request =
  image :: "string option"
  form_meal_type :: "string option"
  upload_stamp :: string
  reply :: "string + string"
  timestamp :: string

definition analyze_food :: "env \<Rightarrow> analyze_request \<Rightarrow> outcome" where
  "analyze_food e rq =
     (case image rq of
        None \<Rightarrow> Response (error_body ''No image provided'') 400
      | Some fname \<Rightarrow>
          (let meal_type = (case form_meal_type rq of None \<Rightarrow> ''snack'' | Some m \<Rightarrow> m)
           in if fname = [] then Response (error_body ''No selected file'') 400
              else if allowed_file fname then
                (let filename = secure_filename e (upload_stamp rq @ ''_'' @ fname)
                 in analysis e ''Analysis failed: '' (reply rq) filename (JStr meal_type)
                      (timestamp rq))
              else Response (error_body ''Invalid file type'') 400))"

text \<open>
  The inputs of one \<^verbatim>\<open>POST /reanalyze\<close>: the JSON body, the model's reply and the clock
  reading. \<^verbatim>\<open>data.get\<close> on a body that is not a dict raises \<^verbatim>\<open>AttributeError\<close>, and
  \<^verbatim>\<open>os.path.basename\<close> on a truthy value that is not a string raises \<^verbatim>\<open>TypeError\<close>; both
  are outside the \<^verbatim>\<open>try\<close> block.
\<close>

record reanalyze_request =
  body :: json
  re_reply :: "string + string"
  re_timestamp :: string

definition no_get :: "json \<Rightarrow> exn" where
  "no_get v = AttributeError (quoted (py_type_name v) @ '' object has no attribute ''
                @ quoted ''get'')"

definition reanalyze_food :: "env \<Rightarrow> reanalyze_request \<Rightarrow> outcome" where
  "reanalyze_food e rq =
     (case body rq of
        JObj data \<Rightarrow>
          (let image_path = dict_get data ''image_path'' JNull;
               meal_type = dict_get data ''meal_type'' (JStr ''snack'')
           in if \<not> py_truthy image_path then Response (error_body ''No image path provided'') 400
              else (case image_path of
                      JStr p \<Rightarrow>
                        (let filename = basename p
                         in if \<not> path_exists e (''uploads/'' @ filename)
                            then Response (error_body ''Image not found'') 404
                            else analysis e ''Reanalysis failed: '' (re_reply rq) filename
                                   meal_type (re_timestamp rq))
                    | v \<Rightarrow> Uncaught (TypeError (''expected str, bytes or os.PathLike object, not ''
                                        @ py_type_name v))))
      | v \<Rightarrow> Uncaught (no_get v))"

section \<open>Numbers and the in-place addition of save_meal\<close>

text \<open>
  A running total starts as the integer 0 and is only ever replaced by the result of
  \<^verbatim>\<open>total += x\<close>, which is a number or an exception; so a running total is a number.
  \<^verbatim>\<open>bool\<close> is a subclass of \<^verbatim>\<open>int\<close>: \<^verbatim>\<open>0 + True\<close> is 1.
\<close>

datatype pynum = PInt int | PFloat "64 word"

fun as_num :: "json \<Rightarrow> pynum option" where
  "as_num (JBool b) = Some (PInt (if b then 1 else 0))"
| "as_num (JInt i) = Some (PInt i)"
| "as_num (JFloat x) = Some (PFloat x)"
| "as_num JNull = None"
| "as_num (JStr _) = None"
| "as_num (JArr _) = None"
| "as_num (JObj _) = None"

fun num_json :: "pynum \<Rightarrow> json" where
  "num_json (PInt i) = JInt i"
| "num_json (PFloat x) = JFloat x"

text \<open>
  Addition of two numbers. Integers are unbounded and add exactly. When one side is a
  float the other is converted first, which raises \<^verbatim>\<open>OverflowError\<close> for an integer out
  of the float range; the sum of two floats never raises.
\<close>

definition int_too_large :: exn where
  "int_too_large = OverflowError ''int too large to convert to float''"

fun num_add :: "env \<Rightarrow> pynum \<Rightarrow> pynum \<Rightarrow> exn + pynum" where
  "num_add e (PInt a) (PInt b) = Inr (PInt (a + b))"
| "num_add e (PInt a) (PFloat y) =
     (case float_of_int e a of
        None \<Rightarrow> Inl int_too_large
      | Some x \<Rightarrow> Inr (PFloat (float_add e x y)))"
| "num_add e (PFloat x) (PInt b) =
     (case float_of_int e b of
        None \<Rightarrow> Inl int_too_large
      | Some y \<Rightarrow> Inr (PFloat (float_add e x y)))"
| "num_add e (PFloat x) (PFloat y) = Inr (PFloat (float_add e x y))"

text \<open>\<^verbatim>\<open>total += v\<close> for a running total and any value \<open>v\<close> of a request body.\<close>

definition py_iadd :: "env \<Rightarrow> pynum \<Rightarrow> json \<Rightarrow> exn + pynum" where
  "py_iadd e a v =
     (case as_num v of
        Some b \<Rightarrow> num_add e a b
      | None \<Rightarrow> Inl (TypeError (''unsupported operand type(s) for +=: ''
                  @ quoted (py_type_name (num_json a)) @ '' and '' @ quoted (py_type_name v))))"

section \<open>The in-memory store\<close>

text \<open>
  \<^verbatim>\<open>calorie_data\<close> maps a date to a dict with the keys \<^verbatim>\<open>meals\<close> and the five totals; no
  other key is ever written to it, so it is a record.
\<close>

record daily_record =
  meals :: "json list"
  total_calories :: pynum
  total_protein :: pynum
  total_carbs :: pynum
  total_fat :: pynum
  total_fiber :: pynum

type_synonym store = "(string \<times> daily_record) list"

definition new_record :: daily_record where
  "new_record = \<lparr>meals = [], total_calories = PInt 0, total_protein = PInt 0,
                 total_carbs = PInt 0, total_fat = PInt 0, total_fiber = PInt 0\<rparr>"

definition record_json :: "daily_record \<Rightarrow> json" where
  "record_json r = JObj
     [(''meals'', JArr (meals r)),
      (''total_calories'', num_json (total_calories r)),
      (''total_protein'', num_json (total_protein r)),
      (''total_carbs'', num_json (total_carbs r)),
      (''total_fat'', num_json (total_fat r)),
      (''total_fiber'', num_json (total_fiber r))]"

datatype total_field = Calories | Protein | Carbs | Fat | Fiber

fun field_key :: "total_field \<Rightarrow> string" where
  "field_key Calories = ''total_calories''"
| "field_key Protein = ''total_protein''"
| "field_key Carbs = ''total_carbs''"
| "field_key Fat = ''total_fat''"
| "field_key Fiber = ''total_fiber''"

fun get_total :: "total_field \<Rightarrow> daily_record \<Rightarrow> pynum" where
  "get_total Calories r = total_calories r"
| "get_total Protein r = total_protein r"
| "get_total Carbs r = total_carbs r"
| "get_total Fat r = total_fat r"
| "get_total Fiber r = total_fiber r"

fun set_total :: "total_field \<Rightarrow> pynum \<Rightarrow> daily_record \<Rightarrow> daily_record" where
  "set_total Calories v r = r\<lparr>total_calories := v\<rparr>"
| "set_total Protein v r = r\<lparr>total_protein := v\<rparr>"
| "set_total Carbs v r = r\<lparr>total_carbs := v\<rparr>"
| "set_total Fat v r = r\<lparr>total_fat := v\<rparr>"
| "set_total Fiber v r = r\<lparr>total_fiber := v\<rparr>"

definition all_fields :: "total_field list" where
  "all_fields = [Calories, Protein, Carbs, Fat, Fiber]"

text \<open>
  Lines 188 to 192: the five statements
  \<^verbatim>\<open>calorie_data[date]['total_x'] += data.get('total_x', 0)\<close>, run in the order of
  \<open>all_fields\<close>. The first one that raises stops the handler and leaves the earlier
  additions (and the appended meal) in place. \<open>e\<close> supplies the float arithmetic.
\<close>

fun add_totals :: "env \<Rightarrow> dict \<Rightarrow> total_field list \<Rightarrow> daily_record \<Rightarrow> exn option \<times> daily_record" where
  "add_totals e data [] r = (None, r)"
| "add_totals e data (f # fs) r =
     (case py_iadd e (get_total f r) (dict_get data (field_key f) (JInt 0)) of
        Inl ex \<Rightarrow> (Some ex, r)
      | Inr v \<Rightarrow> add_totals e data fs (set_total f v r))"

text \<open>
  \<^verbatim>\<open>save_meal\<close>, lines 172 to 194. \<open>today\<close> is \<^verbatim>\<open>datetime.now().strftime('%Y-%m-%d')\<close>. The
  whole request body is what gets appended to \<^verbatim>\<open>meals\<close>. A list or a dict as date is
  unhashable, and the membership test raises before anything is written.
\<close>

definition save_meal :: "env \<Rightarrow> string \<Rightarrow> json \<Rightarrow> store \<Rightarrow> outcome \<times> store" where
  "save_meal e today request_json st =
     (case request_json of
        JObj data \<Rightarrow>
          (case dict_get data ''date'' (JStr today) of
             JStr date \<Rightarrow>
               (let r0 = (case map_of st date of None \<Rightarrow> new_record | Some r \<Rightarrow> r);
                    r1 = r0\<lparr>meals := meals r0 @ [request_json]\<rparr>;
                    (raised, r2) = add_totals e data all_fields r1;
                    st' = dict_set date r2 st
                in (case raised of
                      None \<Rightarrow> (Response (JObj [(''success'', JBool True), (''date'', JStr date)]) 200, st')
                    | Some ex \<Rightarrow> (Uncaught ex, st')))
           | JArr xs \<Rightarrow> (Uncaught (TypeError (''unhashable type: '' @ quoted ''list'')), st)
           | JObj d \<Rightarrow> (Uncaught (TypeError (''unhashable type: '' @ quoted ''dict'')), st)
           | v \<Rightarrow> (OutOfModel, st))
      | v \<Rightarrow> (Uncaught (no_get v), st))"

text \<open>
  \<^verbatim>\<open>get_daily_data\<close>, lines 196 to 206: \<^verbatim>\<open>calorie_data.get(date, {fresh zeroed dict})\<close>; the
  default is built for the response and never stored.
\<close>

definition get_daily_data :: "string \<Rightarrow> store \<Rightarrow> outcome \<times> store" where
  "get_daily_data date st = (Response (record_json (dict_get st date new_record)) 200, st)"

text \<open>
  \<^verbatim>\<open>get_all_dates\<close>, lines 208 to 211. The keys of a dict are pairwise different, so
  \<^verbatim>\<open>sorted(.., reverse=True)\<close> is the ascending sort read backwards.
\<close>

definition dates :: "store \<Rightarrow> string list" where
  "dates st = rev (sort (map fst st))"

definition get_all_dates :: "store \<Rightarrow> outcome \<times> store" where
  "get_all_dates st = (Response (JArr (map JStr (dates st))) 200, st)"

section \<open>The server as a transition system\<close>

datatype request =
    Analyze analyze_request
  | Reanalyze reanalyze_request
  | SaveMeal string json
  | GetDailyData string
  | GetAllDates

fun handle :: "env \<Rightarrow> request \<Rightarrow> store \<Rightarrow> outcome \<times> store" where
  "handle e (Analyze rq) st = (analyze_food e rq, st)"
| "handle e (Reanalyze rq) st = (reanalyze_food e rq, st)"
| "handle e (SaveMeal today request_json) st = save_meal e today request_json st"
| "handle e (GetDailyData date) st = get_daily_data date st"
| "handle e GetAllDates st = get_all_dates st"

fun run :: "env \<Rightarrow> request list \<Rightarrow> store \<Rightarrow> store" where
  "run e [] st = st"
| "run e (q # qs) st = run e qs (snd (handle e q st))"

section \<open>Vocabulary of the statements\<close>

text \<open>
  The date under which \<^verbatim>\<open>save_meal\<close> files a request body: its \<^verbatim>\<open>date\<close> entry, or today's
  date when it has none.
\<close>

definition save_date :: "string \<Rightarrow> json \<Rightarrow> string option" where
  "save_date today request_json =
     (case request_json of
        JObj data \<Rightarrow> (case dict_get data ''date'' (JStr today) of JStr d \<Rightarrow> Some d | _ \<Rightarrow> None)
      | _ \<Rightarrow> None)"

definition saves_under :: "string \<Rightarrow> request \<Rightarrow> bool" where
  "saves_under d q =
     (case q of SaveMeal today request_json \<Rightarrow> save_date today request_json = Some d | _ \<Rightarrow> False)"

text \<open>The requests on which the model follows the code: all but a save under a date that
  is a number, a boolean or null.\<close>

definition in_model :: "request \<Rightarrow> bool" where
  "in_model q =
     (case q of
        SaveMeal today request_json \<Rightarrow>
          (case request_json of
             JObj data \<Rightarrow>
               (case dict_get data ''date'' (JStr today) of
                  JNull \<Rightarrow> False | JBool b \<Rightarrow> False | JInt i \<Rightarrow> False | JFloat x \<Rightarrow> False
                | _ \<Rightarrow> True)
           | _ \<Rightarrow> True)
      | _ \<Rightarrow> True)"




text \<open>What a failed request may answer: an error body with a status other than 200, or
  an exception that escapes to Flask.\<close>

fun error_report :: "outcome \<Rightarrow> bool" where
  "error_report (Response b code) =
     (code \<noteq> 200 \<and> (case b of JObj [(k, JStr msg)] \<Rightarrow> k = ''error'' | _ \<Rightarrow> False))"
| "error_report (Uncaught ex) = True"
| "error_report OutOfModel = False"

fun succeeded :: "outcome \<Rightarrow> bool" where
  "succeeded (Response b code) = (code = 200)"
| "succeeded (Uncaught ex) = False"
| "succeeded OutOfModel = False"




text \<open>The entry of a total in what \<open>normalize\<close> returns, if it returns a dict.\<close>

definition result_total :: "total_field \<Rightarrow> exn + json \<Rightarrow> json option" where
  "result_total f r = (case r of Inr (JObj d) \<Rightarrow> map_of d (field_key f) | _ \<Rightarrow> None)"



subsection \<open>Invariants of the store\<close>


definition well_kept :: "store \<Rightarrow> bool" where
  "well_kept st = (distinct (map fst st) \<and> (\<forall>p\<in>set st. meals (snd p) \<noteq> []))"

subsection \<open>Fixtures for the examples\<close>

text \<open>
  A stand-in for \<^verbatim>\<open>json.loads\<close> that knows the texts of a table, and collaborators
  around it. The examples hold integer totals only, so the float arithmetic of the
  fixture is never consulted; its two entries are placeholders.
\<close>

definition loads_table :: "(string \<times> json) list \<Rightarrow> string \<Rightarrow> string + json" where
  "loads_table tbl s =
     (case map_of tbl s of None \<Rightarrow> Inl ''Expecting value'' | Some j \<Rightarrow> Inr j)"

definition demo_env :: "(string \<times> json) list \<Rightarrow> env" where
  "demo_env tbl =
     \<lparr>json_loads = loads_table tbl,
      url_for = (\<lambda>f. ''http://localhost:5000/uploads/'' @ f),
      secure_filename = (\<lambda>f. f),
      path_exists = (\<lambda>p. True),
      float_add = (\<lambda>x y. x),
      float_of_int = (\<lambda>i. None)\<rparr>"

definition meal :: "string \<Rightarrow> int \<Rightarrow> int \<Rightarrow> json" where
  "meal d cal prot = JObj
     [(''items'', JArr []), (''total_calories'', JInt cal), (''total_protein'', JInt prot),
      (''total_carbs'', JInt 0), (''total_fat'', JInt 0), (''total_fiber'', JInt 0),
      (''date'', JStr d)]"

definition prose :: string where
  "prose = ''Here is the apple: 95 kcal''"

definition one_day :: store where
  "one_day = [(''2024-01-01'',
     \<lparr>meals = [meal ''2024-01-01'' 95 1], total_calories = PInt 95, total_protein = PInt 1,
      total_carbs = PInt 0, total_fat = PInt 0, total_fiber = PInt 0\<rparr>)]"

definition two_saves :: "request list" where
  "two_saves = [SaveMeal ''2024-05-05'' (meal ''2024-01-01'' 95 1), GetDailyData ''2024-01-02'',
                SaveMeal ''2024-05-05'' (meal ''2024-01-01'' 100 2), GetAllDates]"

definition two_meals :: daily_record where
  "two_meals = \<lparr>meals = [meal ''2024-01-01'' 95 1, meal ''2024-01-01'' 100 2],
     total_calories = PInt 195, total_protein = PInt 3,
     total_carbs = PInt 0, total_fat = PInt 0, total_fiber = PInt 0\<rparr>"


definition three_days :: "request list" where
  "three_days = [SaveMeal ''2024-05-05'' (meal ''2024-01-01'' 95 1),
                 SaveMeal ''2024-05-05'' (meal ''2024-03-15'' 100 2),
                 SaveMeal ''2024-05-05'' (meal ''2024-02-10'' 50 3)]"


section \<open>Dictionaries and strings: basic facts\<close>

lemma map_of_dict_set:
  "map_of (dict_set k v d) k' = (if k' = k then Some v else map_of d k')"
  by (induction d) auto

lemma keys_dict_set: "fst ` set (dict_set k v d) = insert k (fst ` set d)"
  by (induction d) auto

lemma set_dict_set: "set (dict_set k v d) \<subseteq> insert (k, v) (set d)"
  by (induction d) auto

lemma distinct_dict_set: "distinct (map fst d) \<Longrightarrow> distinct (map fst (dict_set k v d))"
proof (induction d)
  case Nil
  then show ?case by simp
next
  case (Cons p d)
  have "fst ` set (dict_set k v d) = insert k (fst ` set d)" by (rule keys_dict_set)
  with Cons show ?case by auto
qed

lemma strip_pad:
  assumes "\<forall>c\<in>set ws1. is_space c" "\<forall>c\<in>set ws2. is_space c"
  shows "strip (ws1 @ s @ ws2) = strip s"
proof -
  have a: "dropWhile is_space (ws1 @ s @ ws2) = dropWhile is_space (s @ ws2)"
    using assms(1) by (simp add: dropWhile_append)
  have b: "\<And>t. dropWhile is_space (rev ws2 @ t) = dropWhile is_space t"
    using assms(2) by (simp add: dropWhile_append)
  show ?thesis
  proof (cases "\<forall>c\<in>set s. is_space c")
    case True
    then have c: "dropWhile is_space (s @ ws2) = []" and d: "dropWhile is_space s = []"
      using assms(2) by (auto simp: dropWhile_eq_Nil_conv)
    show ?thesis unfolding strip_def a c d by simp
  next
    case False
    then have c: "dropWhile is_space (s @ ws2) = dropWhile is_space s @ ws2"
      by (auto simp: dropWhile_append)
    show ?thesis unfolding strip_def a c rev_append b by simp
  qed
qed

lemma strip_id:
  assumes "s \<noteq> []" "\<not> is_space (hd s)" "\<not> is_space (last s)"
  shows "strip s = s"
proof -
  have "dropWhile is_space s = s" using assms by (cases s) auto
  moreover have "dropWhile is_space (rev s) = rev s"
    using assms by (cases "rev s") (auto simp: hd_rev)
  ultimately show ?thesis by (simp add: strip_def)
qed

lemma extract_text_fenced:
  assumes "\<forall>c\<in>set ws1. is_space c" "\<forall>c\<in>set ws2. is_space c"
  shows "extract_text (ws1 @ ''```json'' @ mid @ ''```'' @ ws2) = strip mid"
proof -
  let ?core = "''```json'' @ mid @ ''```''"
  have "strip (ws1 @ ?core @ ws2) = strip ?core"
    using assms by (rule strip_pad)
  moreover have "strip ?core = ?core"
    by (rule strip_id) (simp_all add: is_space_def)
  ultimately have t1: "strip (ws1 @ ''```json'' @ mid @ ''```'' @ ws2) = ?core" by simp
  have sw: "startswith ?core ''```json''" by (simp add: startswith_def)
  have d7: "drop 7 ?core = mid @ ''```''" by simp
  have ew: "endswith (mid @ ''```'') ''```''" by (simp add: endswith_def)
  have t3: "take (length (mid @ ''```'') - 3) (mid @ ''```'') = mid" by simp
  show ?thesis
    unfolding extract_text_def Let_def t1 using sw d7 ew t3 by simp
qed

section \<open>The response extractor\<close>

text \<open>
  C4. Take any text \<open>s\<close> that \<^verbatim>\<open>json.loads\<close> parses to \<open>j\<close> and that has no white space at
  its ends (a serialization of \<open>j\<close>), wrap it in a fence that opens with the seven
  characters of the json marker and closes with three backticks, with any white space
  around the fence and between the fence and \<open>s\<close>. Then the text the handlers hand to
  \<^verbatim>\<open>json.loads\<close> is \<open>s\<close> itself, and parsing it gives \<open>j\<close>.
\<close>

theorem extract_fenced_json:
  assumes "\<forall>c\<in>set ws1. is_space c" and "\<forall>c\<in>set ws2. is_space c"
    and "\<forall>c\<in>set ws3. is_space c" and "\<forall>c\<in>set ws4. is_space c"
    and "s \<noteq> []" and "\<not> is_space (hd s)" and "\<not> is_space (last s)"
    and "json_loads e s = Inr j"
  shows "extract_text (ws1 @ ''```json'' @ ws2 @ s @ ws3 @ ''```'' @ ws4) = s
       \<and> json_loads e (extract_text (ws1 @ ''```json'' @ ws2 @ s @ ws3 @ ''```'' @ ws4)) = Inr j"
proof -
  have "extract_text (ws1 @ ''```json'' @ (ws2 @ s @ ws3) @ ''```'' @ ws4) = strip (ws2 @ s @ ws3)"
    using assms(1,4) by (rule extract_text_fenced)
  also have "\<dots> = strip s" using assms(2,3) by (rule strip_pad)
  also have "\<dots> = s" using assms(5,6,7) by (rule strip_id)
  finally have "extract_text (ws1 @ ''```json'' @ ws2 @ s @ ws3 @ ''```'' @ ws4) = s" by simp
  with assms(8) show ?thesis by simp
qed

theorem extract_fenced_json_witness:
  \<open>extract_text (''  ```json'' @ [CHR 0x0A] @ ''{"total_calories": 95}'' @ [CHR 0x0A] @ ''```'' @ [CHR 0x0A])
     = ''{"total_calories": 95}''
   \<and> json_loads (demo_env [(''{"total_calories": 95}'', JObj [(''total_calories'', JInt 95)])])
       (extract_text (''  ```json'' @ [CHR 0x0A] @ ''{"total_calories": 95}'' @ [CHR 0x0A] @ ''```'' @ [CHR 0x0A]))
     = Inr (JObj [(''total_calories'', JInt 95)])\<close>
  using extract_fenced_json [of "''  ''" "[CHR 0x0A]" "[CHR 0x0A]" "[CHR 0x0A]"
      \<open>''{"total_calories": 95}''\<close>
      \<open>demo_env [(''{"total_calories": 95}'', JObj [(''total_calories'', JInt 95)])]\<close>
      "JObj [(''total_calories'', JInt 95)]"]
  by (simp add: is_space_def demo_env_def loads_table_def)

text \<open>
  C5. When \<^verbatim>\<open>json.loads\<close> rejects the text left after trimming and removing the optional
  fence markers, the request fails: the handler answers status 500 with an error body
  that carries the parser's message, and no result. This holds for the shared parsing
  step and for both handlers once they have reached the model's reply.
\<close>

theorem unparseable_reply_is_reported:
  assumes "json_loads e (extract_text text) = Inl msg"
  shows "analysis e prefix (Inr text) filename meal_type ts = Response (error_body (prefix @ msg)) 500
       \<and> (image rq = Some fname \<and> fname \<noteq> [] \<and> allowed_file fname \<and> reply rq = Inr text
            \<longrightarrow> analyze_food e rq = Response (error_body (''Analysis failed: '' @ msg)) 500)
       \<and> (body rr = JObj data \<and> dict_get data ''image_path'' JNull = JStr p \<and> p \<noteq> []
            \<and> path_exists e (''uploads/'' @ basename p) \<and> re_reply rr = Inr text
            \<longrightarrow> reanalyze_food e rr = Response (error_body (''Reanalysis failed: '' @ msg)) 500)"
proof -
  have a: "\<And>prefix filename meal_type ts.
      analysis e prefix (Inr text) filename meal_type ts = Response (error_body (prefix @ msg)) 500"
    using assms by (simp add: analysis_def)
  have b: "image rq = Some fname \<and> fname \<noteq> [] \<and> allowed_file fname \<and> reply rq = Inr text
            \<longrightarrow> analyze_food e rq = Response (error_body (''Analysis failed: '' @ msg)) 500"
    by (simp add: analyze_food_def a)
  have c: "body rr = JObj data \<and> dict_get data ''image_path'' JNull = JStr p \<and> p \<noteq> []
            \<and> path_exists e (''uploads/'' @ basename p) \<and> re_reply rr = Inr text
            \<longrightarrow> reanalyze_food e rr = Response (error_body (''Reanalysis failed: '' @ msg)) 500"
    by (simp add: reanalyze_food_def a)
  from a b c show ?thesis by blast
qed

theorem unparseable_reply_is_reported_witness:
  "analysis (demo_env []) ''Analysis failed: '' (Inr prose) ''f.png'' (JStr ''snack'') ''t''
      = Response (error_body ''Analysis failed: Expecting value'') 500
   \<and> analyze_food (demo_env [])
        \<lparr>image = Some ''apple.PNG'', form_meal_type = None, upload_stamp = ''20240101_120000'',
         reply = Inr prose, timestamp = ''2024-01-01T12:00:00''\<rparr>
      = Response (error_body ''Analysis failed: Expecting value'') 500
   \<and> reanalyze_food (demo_env [])
        \<lparr>body = JObj [(''image_path'', JStr ''http://localhost:5000/uploads/apple.png'')],
         re_reply = Inr prose, re_timestamp = ''2024-01-01T12:00:00''\<rparr>
      = Response (error_body ''Reanalysis failed: Expecting value'') 500"
proof -
  have al: "allowed_file ''apple.PNG''" by code_simp
  have l: "json_loads (demo_env []) (extract_text prose) = Inl ''Expecting value''"
    by (simp add: demo_env_def loads_table_def)
  have ex: "path_exists (demo_env []) (''uploads/'' @ basename ''http://localhost:5000/uploads/apple.png'')"
    by (simp add: demo_env_def)
  show ?thesis
    using unparseable_reply_is_reported [OF l, of "''Analysis failed: ''" "''f.png''" "JStr ''snack''" "''t''"
      "\<lparr>image = Some ''apple.PNG'', form_meal_type = None, upload_stamp = ''20240101_120000'',
         reply = Inr prose, timestamp = ''2024-01-01T12:00:00''\<rparr>" "''apple.PNG''"
      "\<lparr>body = JObj [(''image_path'', JStr ''http://localhost:5000/uploads/apple.png'')],
         re_reply = Inr prose, re_timestamp = ''2024-01-01T12:00:00''\<rparr>"
      "[(''image_path'', JStr ''http://localhost:5000/uploads/apple.png'')]"
      "''http://localhost:5000/uploads/apple.png''"] al ex
    by (simp add: dict_get_def)
qed

section \<open>The stamping step (normalize)\<close>

lemma map_of_stamped:
  "k \<noteq> ''timestamp'' \<Longrightarrow> k \<noteq> ''meal_type'' \<Longrightarrow> k \<noteq> ''image_path'' \<Longrightarrow>
   map_of (dict_set ''timestamp'' t (dict_set ''meal_type'' m (dict_set ''image_path'' u d))) k
     = map_of d k"
  by (simp add: map_of_dict_set)

lemma field_key_not_stamp:
  "field_key f \<noteq> ''timestamp''" "field_key f \<noteq> ''meal_type''" "field_key f \<noteq> ''image_path''"
  "field_key f \<noteq> ''items''"
  by (cases f; simp)+

text \<open>
  C3, as the spec states it, fails: a parsed object with the five totals and no
  \<^verbatim>\<open>items\<close> is stamped and returned.
\<close>

theorem normalize_accepts_missing_items:
  "normalize (JObj [(''total_calories'', JInt 95), (''total_protein'', JInt 1),
                    (''total_carbs'', JInt 25), (''total_fat'', JInt 0), (''total_fiber'', JInt 4)])
       ''http://localhost:5000/uploads/a.png'' (JStr ''snack'') ''2024-01-01T12:00:00''
     = Inr (JObj [(''total_calories'', JInt 95), (''total_protein'', JInt 1),
                  (''total_carbs'', JInt 25), (''total_fat'', JInt 0), (''total_fiber'', JInt 4),
                  (''image_path'', JStr ''http://localhost:5000/uploads/a.png''),
                  (''meal_type'', JStr ''snack''),
                  (''timestamp'', JStr ''2024-01-01T12:00:00'')])"
  by simp

text \<open>
  C3, amended. The stamping step checks no shape: on every parsed object it succeeds and
  returns the object with \<^verbatim>\<open>image_path\<close>, \<^verbatim>\<open>meal_type\<close> and \<^verbatim>\<open>timestamp\<close> set; the entry
  \<^verbatim>\<open>items\<close> and the five totals are in the result exactly when, and as, they were in the
  input, so a missing one stays missing; and the handler answers that object with
  status 200.
\<close>

theorem normalize_checks_no_shape:
  "normalize (JObj d) u m t
     = Inr (JObj (dict_set ''timestamp'' (JStr t) (dict_set ''meal_type'' m
                 (dict_set ''image_path'' (JStr u) d))))
   \<and> map_of (dict_set ''timestamp'' (JStr t) (dict_set ''meal_type'' m
                 (dict_set ''image_path'' (JStr u) d))) ''items'' = map_of d ''items''
   \<and> (\<forall>f. map_of (dict_set ''timestamp'' (JStr t) (dict_set ''meal_type'' m
                 (dict_set ''image_path'' (JStr u) d))) (field_key f) = map_of d (field_key f))
   \<and> (json_loads e (extract_text text) = Inr (JObj d)
        \<longrightarrow> analysis e prefix (Inr text) filename m t
              = Response (JObj (dict_set ''timestamp'' (JStr t) (dict_set ''meal_type'' m
                   (dict_set ''image_path'' (JStr (url_for e filename)) d)))) 200)"
  by (simp add: map_of_stamped field_key_not_stamp analysis_def)

theorem normalize_checks_no_shape_witness:
  \<open>normalize (JObj [(''note'', JStr ''no food'')]) ''u'' (JStr ''snack'') ''t''
     = Inr (JObj [(''note'', JStr ''no food''), (''image_path'', JStr ''u''),
                  (''meal_type'', JStr ''snack''), (''timestamp'', JStr ''t'')])
   \<and> map_of [(''note'', JStr ''no food''), (''image_path'', JStr ''u''),
                  (''meal_type'', JStr ''snack''), (''timestamp'', JStr ''t'')] ''items'' = None
   \<and> analysis (demo_env [(''{"note": "no food"}'', JObj [(''note'', JStr ''no food'')])])
        ''Analysis failed: '' (Inr ''```json{"note": "no food"}```'') ''a.png'' (JStr ''snack'') ''t''
      = Response (JObj [(''note'', JStr ''no food''),
                  (''image_path'', JStr ''http://localhost:5000/uploads/a.png''),
                  (''meal_type'', JStr ''snack''), (''timestamp'', JStr ''t'')]) 200\<close>
proof -
  have x: \<open>extract_text ''```json{"note": "no food"}```'' = ''{"note": "no food"}''\<close>
    using extract_text_fenced [of "[]" "[]" \<open>''{"note": "no food"}''\<close>]
      strip_id [of \<open>''{"note": "no food"}''\<close>]
    by (simp add: is_space_def)
  show ?thesis
    using normalize_checks_no_shape [of "[(''note'', JStr ''no food'')]" "''u''" "JStr ''snack''" "''t''"
      \<open>demo_env [(''{"note": "no food"}'', JObj [(''note'', JStr ''no food'')])]\<close>
      \<open>''```json{"note": "no food"}```''\<close> "''Analysis failed: ''" "''a.png''"]
    by (simp add: x demo_env_def loads_table_def)
qed

text \<open>
  C8. The five totals of the result are the entries received: the stamping step copies
  each of them unchanged, whatever the \<^verbatim>\<open>items\<close> entry holds (replacing the items by any
  other value changes no total), and a total that disagrees with its items is kept: one
  item of 95 calories under a reported total of 100 gives 100.
\<close>

theorem totals_pass_through:
  "result_total f (normalize (JObj d) u m t) = map_of d (field_key f)
   \<and> result_total f (normalize (JObj (dict_set ''items'' its d)) u m t) = map_of d (field_key f)
   \<and> result_total Calories
        (normalize (JObj [(''items'', JArr [JObj [(''name'', JStr ''apple''), (''calories'', JInt 95)]]),
                          (''total_calories'', JInt 100)]) u m t) = Some (JInt 100)"
  by (simp add: result_total_def map_of_dict_set field_key_not_stamp)

theorem totals_pass_through_witness:
  "result_total Protein
     (normalize (JObj [(''items'', JArr []), (''total_protein'', JFloat 0x3FE0000000000000)])
        ''u'' (JStr ''snack'') ''t'') = Some (JFloat 0x3FE0000000000000)"
  using totals_pass_through [of Protein "[(''items'', JArr []), (''total_protein'', JFloat 0x3FE0000000000000)]"
      "''u''" "JStr ''snack''" "''t''" JNull]
  by simp

section \<open>Failed analyses and the store\<close>

lemma analysis_outcome:
  "succeeded (analysis e prefix rp filename m t) \<or> error_report (analysis e prefix rp filename m t)"
  by (simp add: analysis_def error_body_def split: sum.splits)

lemma analyze_food_outcome: "succeeded (analyze_food e a) \<or> error_report (analyze_food e a)"
  using analysis_outcome
  by (simp add: analyze_food_def error_body_def Let_def split: option.splits)

lemma reanalyze_food_outcome: "succeeded (reanalyze_food e b) \<or> error_report (reanalyze_food e b)"
  using analysis_outcome
  by (simp add: reanalyze_food_def error_body_def Let_def split: json.splits)

text \<open>
  C9. Neither analysis handler reads or writes \<^verbatim>\<open>calorie_data\<close>: whatever a
  \<^verbatim>\<open>/analyze\<close> or \<^verbatim>\<open>/reanalyze\<close> request answers, the store after it is the store before
  it. And the answer is either a success with status 200 or an error report (a body with
  the single entry \<^verbatim>\<open>error\<close> under another status, or an escaped exception), which holds
  no part of a result.
\<close>

theorem analysis_leaves_store:
  "snd (handle e (Analyze a) st) = st \<and> snd (handle e (Reanalyze b) st) = st
   \<and> (succeeded (fst (handle e (Analyze a) st)) \<or> error_report (fst (handle e (Analyze a) st)))
   \<and> (succeeded (fst (handle e (Reanalyze b) st)) \<or> error_report (fst (handle e (Reanalyze b) st)))"
  using analyze_food_outcome reanalyze_food_outcome by simp

theorem analysis_leaves_store_witness:
  "snd (handle (demo_env [])
         (Analyze \<lparr>image = Some ''apple.png'', form_meal_type = None, upload_stamp = ''20240101_120000'',
                   reply = Inl ''quota exceeded'', timestamp = ''2024-01-01T12:00:00''\<rparr>) one_day) = one_day
   \<and> snd (handle (demo_env [])
         (Reanalyze \<lparr>body = JObj [(''image_path'', JStr ''uploads/apple.png'')],
                     re_reply = Inr prose, re_timestamp = ''2024-01-01T12:00:00''\<rparr>) one_day) = one_day
   \<and> error_report (fst (handle (demo_env [])
         (Analyze \<lparr>image = Some ''apple.png'', form_meal_type = None, upload_stamp = ''20240101_120000'',
                   reply = Inl ''quota exceeded'', timestamp = ''2024-01-01T12:00:00''\<rparr>) one_day))
   \<and> error_report (fst (handle (demo_env [])
         (Reanalyze \<lparr>body = JObj [(''image_path'', JStr ''uploads/apple.png'')],
                     re_reply = Inr prose, re_timestamp = ''2024-01-01T12:00:00''\<rparr>) one_day))"
proof -
  have al: "allowed_file ''apple.png''" by code_simp
  have a: "analyze_food (demo_env [])
         \<lparr>image = Some ''apple.png'', form_meal_type = None, upload_stamp = ''20240101_120000'',
                   reply = Inl ''quota exceeded'', timestamp = ''2024-01-01T12:00:00''\<rparr>
       = Response (error_body ''Analysis failed: quota exceeded'') 500"
    using al by (simp add: analyze_food_def analysis_def)
  have b: "reanalyze_food (demo_env [])
         \<lparr>body = JObj [(''image_path'', JStr ''uploads/apple.png'')],
                     re_reply = Inr prose, re_timestamp = ''2024-01-01T12:00:00''\<rparr>
       = Response (error_body ''Reanalysis failed: Expecting value'') 500"
    by (simp add: reanalyze_food_def analysis_def dict_get_def demo_env_def loads_table_def)
  show ?thesis
    using analysis_leaves_store [of "demo_env []"
        "\<lparr>image = Some ''apple.png'', form_meal_type = None, upload_stamp = ''20240101_120000'',
                   reply = Inl ''quota exceeded'', timestamp = ''2024-01-01T12:00:00''\<rparr>" one_day
        "\<lparr>body = JObj [(''image_path'', JStr ''uploads/apple.png'')],
                     re_reply = Inr prose, re_timestamp = ''2024-01-01T12:00:00''\<rparr>"]
    by (simp add: a b error_body_def)
qed

section \<open>The daily store\<close>





lemma meals_set_total: "meals (set_total g v r) = meals r"
  by (cases g) simp_all

lemma meals_add_totals: "meals (snd (add_totals e data fs r)) = meals r"
  by (induction fs arbitrary: r) (simp_all add: meals_set_total split: sum.splits)
















lemma py_iadd_int: "py_iadd e (PInt a) (JInt b) = Inr (PInt (a + b))"
  by (simp add: py_iadd_def)

lemma run_two_saves: "run e two_saves [] = [(''2024-01-01'', two_meals)]"
  by (simp add: two_saves_def two_meals_def save_meal_def meal_def dict_get_def all_fields_def
      py_iadd_int new_record_def get_daily_data_def get_all_dates_def)


lemma in_model_two_saves: "list_all in_model two_saves"
  by (simp add: two_saves_def in_model_def meal_def dict_get_def)














text \<open>
  The conversion of an integer that is out of the float range raises after the meal has
  been appended, like an entry that is not a number.
\<close>

lemma py_iadd_overflow:
  "float_of_int e i = None \<Longrightarrow> py_iadd e (PFloat x) (JInt i) = Inl int_too_large"
  "float_of_int e i = None \<Longrightarrow> py_iadd e (PInt i) (JFloat x) = Inl int_too_large"
  by (simp_all add: py_iadd_def)

lemma save_meal_unchanged:
  "(\<forall>d. dict_get data ''date'' (JStr today) \<noteq> JStr d) \<Longrightarrow>
   snd (save_meal e today (JObj data) st) = st"
  by (simp add: save_meal_def split: json.splits)

lemma save_meal_not_dict:
  "(\<forall>data. b \<noteq> JObj data) \<Longrightarrow> snd (save_meal e today b st) = st"
  by (simp add: save_meal_def split: json.splits)

lemma save_meal_cases:
  "snd (save_meal e today b st) = st
   \<or> (\<exists>data d r. b = JObj data \<and> save_date today b = Some d \<and> meals r \<noteq> []
         \<and> snd (save_meal e today b st) = dict_set d r st)"
proof (cases "\<exists>data d. b = JObj data \<and> dict_get data ''date'' (JStr today) = JStr d")
  case True
  then obtain data d where b: "b = JObj data" and d: "dict_get data ''date'' (JStr today) = JStr d"
    by blast
  let ?r1 = "(case map_of st d of None \<Rightarrow> new_record | Some r \<Rightarrow> r)
               \<lparr>meals := meals (case map_of st d of None \<Rightarrow> new_record | Some r \<Rightarrow> r) @ [b]\<rparr>"
  let ?r2 = "snd (add_totals e data all_fields ?r1)"
  have "meals ?r2 \<noteq> []" by (simp add: meals_add_totals)
  moreover have "snd (save_meal e today b st) = dict_set d ?r2 st"
    using b d by (simp add: save_meal_def Let_def split: prod.splits option.splits)
  moreover have "save_date today b = Some d" using b d by (simp add: save_date_def)
  ultimately show ?thesis using b by blast
next
  case False
  then have "snd (save_meal e today b st) = st"
    by (cases "\<exists>data. b = JObj data") (auto simp: save_meal_unchanged save_meal_not_dict)
  then show ?thesis by simp
qed

lemma handle_cases:
  "snd (handle e q st) = st
   \<or> (\<exists>d r. saves_under d q \<and> meals r \<noteq> [] \<and> snd (handle e q st) = dict_set d r st)"
proof (cases q)
  case (SaveMeal today b)
  then show ?thesis using save_meal_cases [of e today b st] by (auto simp: saves_under_def)
qed (simp_all add: get_daily_data_def get_all_dates_def)

lemma handle_well_kept: "well_kept st \<Longrightarrow> well_kept (snd (handle e q st))"
  using handle_cases [of e q st] set_dict_set distinct_dict_set
  by (fastforce simp: well_kept_def)

lemma run_well_kept: "well_kept st \<Longrightarrow> well_kept (run e qs st)"
  by (induction qs arbitrary: st) (simp_all add: handle_well_kept)

lemma handle_other_date:
  "\<not> saves_under d q \<Longrightarrow> map_of (snd (handle e q st)) d = map_of st d"
  using handle_cases [of e q st] by (auto simp: map_of_dict_set)

lemma run_other_date:
  "list_all (\<lambda>q. \<not> saves_under d q) qs \<Longrightarrow> map_of (run e qs st) d = map_of st d"
  by (induction qs arbitrary: st) (simp_all add: handle_other_date)

lemma set_dates: "set (dates st) = fst ` set st"
  by (simp add: dates_def)

text \<open>
  C6. After any sequence of requests from the empty store in which no save was filed
  under \<open>d\<close>, reading the day \<open>d\<close> answers a record with no meals and five totals of 0,
  leaves the store as it was, and a listing of the dates made right after it does not
  contain \<open>d\<close>.
\<close>

text \<open>
  C6. After any sequence of requests from the empty store in which no save was filed
  under \<open>d\<close>, reading the day \<open>d\<close> answers a record with no meals and five totals of 0,
  leaves the store as it was, and a listing of the dates made right after it does not
  contain \<open>d\<close>.
\<close>

theorem get_of_unsaved_date:
  assumes "list_all in_model qs" and "list_all (\<lambda>q. \<not> saves_under d q) qs"
  shows "handle e (GetDailyData d) (run e qs [])
           = (Response (JObj [(''meals'', JArr []), (''total_calories'', JInt 0),
                              (''total_protein'', JInt 0), (''total_carbs'', JInt 0),
                              (''total_fat'', JInt 0), (''total_fiber'', JInt 0)]) 200,
              run e qs [])
       \<and> d \<notin> set (dates (snd (handle e (GetDailyData d) (run e qs []))))
       \<and> fst (handle e GetAllDates (snd (handle e (GetDailyData d) (run e qs []))))
           = Response (JArr (map JStr (dates (run e qs [])))) 200"
proof -
  have n: "map_of (run e qs []) d = None"
    using run_other_date [OF assms(2), of e "[]"] by simp
  then have "d \<notin> fst ` set (run e qs [])" by (simp add: map_of_eq_None_iff)
  then show ?thesis
    using n by (simp add: get_daily_data_def get_all_dates_def dict_get_def record_json_def
        new_record_def set_dates)
qed

lemma not_under_two_saves: "list_all (\<lambda>q. \<not> saves_under ''2024-01-02'' q) two_saves"
  by (simp add: two_saves_def saves_under_def save_date_def meal_def dict_get_def)

theorem get_of_unsaved_date_witness:
  "handle (demo_env []) (GetDailyData ''2024-01-02'') [(''2024-01-01'', two_meals)]
      = (Response (JObj [(''meals'', JArr []), (''total_calories'', JInt 0),
                         (''total_protein'', JInt 0), (''total_carbs'', JInt 0),
                         (''total_fat'', JInt 0), (''total_fiber'', JInt 0)]) 200,
         [(''2024-01-01'', two_meals)])
   \<and> fst (handle (demo_env []) GetAllDates
            (snd (handle (demo_env []) (GetDailyData ''2024-01-02'') [(''2024-01-01'', two_meals)])))
      = Response (JArr [JStr ''2024-01-01'']) 200"
proof -
  note h = get_of_unsaved_date [OF in_model_two_saves not_under_two_saves, of "demo_env []",
      unfolded run_two_saves]
  have d: "map JStr (dates [(''2024-01-01'', two_meals)]) = [JStr ''2024-01-01'']"
    by (simp add: dates_def)
  from h show ?thesis unfolding d by blast
qed

lemma dates_descending: "distinct (map fst st) \<Longrightarrow> sorted_wrt (\<lambda>a b. a > b) (dates st)"
  by (simp add: dates_def sorted_wrt_rev strict_sorted_iff)

lemma keys_three_days:
  "map fst (run e three_days []) = [''2024-01-01'', ''2024-03-15'', ''2024-02-10'']"
  by (simp add: three_days_def save_meal_def meal_def dict_get_def all_fields_def
      py_iadd_int new_record_def)

lemma sort_three: "rev (sort [''2024-01-01'', ''2024-03-15'', ''2024-02-10''])
   = [''2024-03-15'', ''2024-02-10'', ''2024-01-01'']"
  by code_simp

text \<open>
  C7. In every store reached from the empty one, the listing answers the dates of the
  store, which are exactly the dates that have a record with at least one meal, each
  once and in strictly descending lexicographic order, and leaves the store as it was.
  After saves under 2024-01-01, 2024-03-15 and 2024-02-10 it answers 2024-03-15,
  2024-02-10, 2024-01-01.
\<close>

text \<open>
  C7. In every store reached from the empty one, the listing answers the dates of the
  store, which are exactly the dates that have a record with at least one meal, each
  once and in strictly descending lexicographic order, and leaves the store as it was.
  After saves under 2024-01-01, 2024-03-15 and 2024-02-10 it answers 2024-03-15,
  2024-02-10, 2024-01-01.
\<close>

theorem dates_listed_descending:
  assumes "list_all in_model qs"
  shows "fst (handle e GetAllDates (run e qs [])) = Response (JArr (map JStr (dates (run e qs [])))) 200
       \<and> snd (handle e GetAllDates (run e qs [])) = run e qs []
       \<and> sorted_wrt (\<lambda>a b. a > b) (dates (run e qs []))
       \<and> set (dates (run e qs [])) = {d. \<exists>r. map_of (run e qs []) d = Some r \<and> meals r \<noteq> []}
       \<and> dates (run e three_days []) = [''2024-03-15'', ''2024-02-10'', ''2024-01-01'']"
proof -
  let ?st = "run e qs []"
  have wk: "well_kept ?st" by (rule run_well_kept) (simp add: well_kept_def)
  then have dist: "distinct (map fst ?st)" and ne: "\<forall>p\<in>set ?st. meals (snd p) \<noteq> []"
    by (simp_all add: well_kept_def)
  have "fst ` set ?st = {d. \<exists>r. map_of ?st d = Some r \<and> meals r \<noteq> []}"
  proof (intro set_eqI iffI)
    fix d assume "d \<in> fst ` set ?st"
    then obtain r where m: "(d, r) \<in> set ?st" by auto
    then have "map_of ?st d = Some r" using dist by simp
    moreover have "meals r \<noteq> []" using ne m by auto
    ultimately show "d \<in> {d. \<exists>r. map_of ?st d = Some r \<and> meals r \<noteq> []}" by blast
  next
    fix d assume "d \<in> {d. \<exists>r. map_of ?st d = Some r \<and> meals r \<noteq> []}"
    then obtain r where "map_of ?st d = Some r" by blast
    then have "(d, r) \<in> set ?st" by (rule map_of_SomeD)
    then show "d \<in> fst ` set ?st" by force
  qed
  then have s: "set (dates ?st) = {d. \<exists>r. map_of ?st d = Some r \<and> meals r \<noteq> []}"
    by (simp add: set_dates)
  have ex: "dates (run e three_days []) = [''2024-03-15'', ''2024-02-10'', ''2024-01-01'']"
    by (simp only: dates_def keys_three_days sort_three)
  show ?thesis
    using s ex dates_descending [OF dist] by (simp add: get_all_dates_def)
qed

lemma in_model_three_days: "list_all in_model three_days"
  by (simp add: three_days_def in_model_def meal_def dict_get_def)

theorem dates_listed_descending_witness:
  "fst (handle (demo_env []) GetAllDates (run (demo_env []) three_days []))
      = Response (JArr [JStr ''2024-03-15'', JStr ''2024-02-10'', JStr ''2024-01-01'']) 200
   \<and> set (dates (run (demo_env []) three_days [])) = {''2024-01-01'', ''2024-02-10'', ''2024-03-15''}"
proof -
  note h = dates_listed_descending [OF in_model_three_days, of "demo_env []"]
  from h have d: "dates (run (demo_env []) three_days []) = [''2024-03-15'', ''2024-02-10'', ''2024-01-01'']"
    by blast
  from h have "fst (handle (demo_env []) GetAllDates (run (demo_env []) three_days []))
      = Response (JArr (map JStr (dates (run (demo_env []) three_days [])))) 200" by blast
  then show ?thesis by (auto simp: d)
qed

lemma in_model_iff: "in_model q \<longleftrightarrow> fst (handle e q st) \<noteq> OutOfModel"
proof (cases q)
  case (Analyze a)
  then show ?thesis
    using analyze_food_outcome [of e a] by (cases "analyze_food e a") (simp_all add: in_model_def)
next
  case (Reanalyze b)
  then show ?thesis
    using reanalyze_food_outcome [of e b] by (cases "reanalyze_food e b") (simp_all add: in_model_def)
next
  case (SaveMeal today b)
  then show ?thesis
    by (auto simp: in_model_def save_meal_def Let_def split: json.splits prod.splits option.splits)
qed (simp_all add: in_model_def get_daily_data_def get_all_dates_def)

end
